theory Spec2Isabelle
  imports Main "HOL-Library.AList"
begin

section \<open>Paths and the directory tree\<close>

text \<open>
  The analyzer works on \<^verbatim>\<open>std::filesystem::path\<close> values and on the strings that
  \<^verbatim>\<open>generic_string()\<close> renders from them. A path is modelled by the list of its
  components below the filesystem root, outermost first; the empty list is the root
  directory \<^verbatim>\<open>/\<close>. The rendering is one-to-one on such paths, so a container keyed by
  the rendered string is keyed by the path here.
\<close>

type_synonym path = "string list"
type_synonym uri = string

definition parent_path :: "path \<Rightarrow> path" where
  "parent_path p = butlast p"

definition path_slash :: "path \<Rightarrow> string \<Rightarrow> path" where
  "path_slash p name = p @ [name]"

definition filename :: "path \<Rightarrow> string" where
  "filename p = (if p = [] then [] else last p)"

text \<open>
  \<^verbatim>\<open>path::extension()\<close>: the part of the file name from its last period on, empty for the
  names \<^verbatim>\<open>.\<close> and \<^verbatim>\<open>..\<close>, for a name without a period and for a name whose only period
  is its first character.
\<close>

definition extension :: "path \<Rightarrow> string" where
  "extension p =
     (let f = filename p in
      if f = ''.'' \<or> f = ''..'' \<or> CHR ''.'' \<notin> set f then []
      else (let suf = rev (takeWhile (\<lambda>c. c \<noteq> CHR ''.'') (rev f)) in
            if Suc (length suf) = length f then [] else CHR ''.'' # suf))"

definition generic_string :: "path \<Rightarrow> string" where
  "generic_string p = (if p = [] then ''/'' else concat (map (\<lambda>c. CHR ''/'' # c) p))"

text \<open>
  Modelled from the spec: \<^verbatim>\<open>utils::endsWith\<close> is declared in \<^verbatim>\<open>utils/utils.h\<close>, which is
  not among the sources; the spec describes source-file identification as an exact,
  case-sensitive suffix match.
\<close>

definition endsWith :: "string \<Rightarrow> string \<Rightarrow> bool" where
  "endsWith s suffix =
     (length suffix \<le> length s \<and> drop (length s - length suffix) s = suffix)"

text \<open>
  The filesystem is a tree: a regular file with its text, or a directory with its
  entries in the order a directory iterator yields them. Links and special files are
  left out.
\<close>

datatype fsnode = RegularFile string | Directory "(string \<times> fsnode) list"

type_synonym filesystem = fsnode

fun status :: "fsnode \<Rightarrow> path \<Rightarrow> fsnode option" where
  "status t [] = Some t"
| "status (RegularFile c) (n # p) = None"
| "status (Directory es) (n # p) =
     (case map_of es n of None \<Rightarrow> None | Some t \<Rightarrow> status t p)"

definition exists_path :: "filesystem \<Rightarrow> path \<Rightarrow> bool" where
  "exists_path fs p = (status fs p \<noteq> None)"

fun is_regular_file :: "fsnode \<Rightarrow> bool" where
  "is_regular_file (RegularFile c) = True"
| "is_regular_file (Directory es) = False"

definition is_directory :: "filesystem \<Rightarrow> path \<Rightarrow> bool" where
  "is_directory fs p = (case status fs p of Some (Directory es) \<Rightarrow> True | _ \<Rightarrow> False)"

text \<open>
  Every exception of the C++ code is a value. \<^verbatim>\<open>filesystem_error\<close> is what the
  directory iterators throw; the others are the exceptions of the YAML library.
\<close>

datatype error =
  filesystem_error | BadFile | ParserException | BadSubscript | BadConversion

text \<open>
  \<^verbatim>\<open>recursive_directory_iterator(p)\<close> yields every entry below \<^verbatim>\<open>p\<close>, each with its full
  path, and throws when \<^verbatim>\<open>p\<close> cannot be opened as a directory.
\<close>

fun walk :: "path \<Rightarrow> fsnode \<Rightarrow> (path \<times> fsnode) list"
  and walk_entries :: "path \<Rightarrow> (string \<times> fsnode) list \<Rightarrow> (path \<times> fsnode) list" where
  "walk p (RegularFile c) = []"
| "walk p (Directory es) = walk_entries p es"
| "walk_entries p [] = []"
| "walk_entries p ((n, t) # es) = (p @ [n], t) # walk (p @ [n]) t @ walk_entries p es"

definition recursive_directory_iterator ::
  "filesystem \<Rightarrow> path \<Rightarrow> error + (path \<times> fsnode) list" where
  "recursive_directory_iterator fs p =
     (case status fs p of
        Some (Directory es) \<Rightarrow> Inr (walk p (Directory es))
      | _ \<Rightarrow> Inl filesystem_error)"

section \<open>Per-project configuration (Woofile.cpp)\<close>

text \<open>
  The YAML library is outside the repository. A parsed document is a tree of nodes;
  \<^verbatim>\<open>node[key]\<close> is a defined node only for a key of a map node and raises on a scalar
  node, and \<^verbatim>\<open>as<std::string>()\<close> converts a scalar (and renders the null node as \<^verbatim>\<open>null\<close>).
  The parser itself is a parameter \<open>parse\<close> of the model: it sends a file's text to a
  node, or to \<open>None\<close> when the text is malformed.
\<close>

datatype yaml_node =
  YNull | YScalar string | YSequence "yaml_node list" | YMap "(string \<times> yaml_node) list"




record woofile_config =
  bibtex :: string



section \<open>Documents and the object store\<close>

text \<open>
  Documents are shared objects: a project's map holds \<^verbatim>\<open>shared_ptr\<close>s, and the analyzer
  passes raw pointers and shared handles around. The store maps an address to the
  object it holds; \<open>next_free\<close> is the address the next \<^verbatim>\<open>make_shared\<close> returns. A pointer
  that may be null is an \<open>addr option\<close>. The store keeps the last value of a destroyed
  object and never hands its address out again; whether an object is alive is read
  from the maps that own it (see \<open>referenced\<close> below).
\<close>

record document =
  documentPath :: path
  source :: string

type_synonym addr = nat

record store =
  cell :: "addr \<Rightarrow> document"
  next_free :: addr

definition make_shared :: "document \<Rightarrow> store \<Rightarrow> addr \<times> store" where
  "make_shared d h =
     (next_free h, \<lparr>cell = (cell h)(next_free h := d), next_free = Suc (next_free h)\<rparr>)"

text \<open>
  Modelled from the spec: the class \<^verbatim>\<open>DialectedWooWooDocument\<close> is declared and defined
  outside the sources at hand. The spec consumes it as "a document has a path and a
  mutable source text": the constructor stores the path and reads the file's text (the
  empty text when there is no such regular file), and \<^verbatim>\<open>updateSource\<close> replaces the text.
\<close>

definition DialectedWooWooDocument :: "filesystem \<Rightarrow> path \<Rightarrow> document" where
  "DialectedWooWooDocument fs p =
     \<lparr>documentPath = p,
      source = (case status fs p of Some (RegularFile text) \<Rightarrow> text | _ \<Rightarrow> [])\<rparr>"

definition updateSource :: "string \<Rightarrow> document \<Rightarrow> document" where
  "updateSource src d = d\<lparr>source := src\<rparr>"

section \<open>Projects (WooWooProject.cpp)\<close>

text \<open>
  \<open>documents\<close> is the map from path key to shared document, as the list of its entries
  in iteration order; keys are distinct. \<^verbatim>\<open>documents[k] = v\<close> replaces the entry of an
  existing key in place and adds a new key at the end; the declaration of the container
  is not among the sources, and no general result below depends on where a new key
  lands. The one evaluation that follows a scan over two entries with equal paths says
  so where it stands.
\<close>

record project =
  projectFolderPath :: "path option"
  woofile :: "woofile_config option"
  documents :: "(path \<times> addr) list"

definition WooWooProject_default :: project where
  "WooWooProject_default = \<lparr>projectFolderPath = None, woofile = None, documents = []\<rparr>"

definition WooWooProject_loadDocument ::
  "filesystem \<Rightarrow> path \<Rightarrow> project \<times> store \<Rightarrow> project \<times> store" where
  "WooWooProject_loadDocument fs p ph =
     (let (a, h') = make_shared (DialectedWooWooDocument fs p) (snd ph)
      in ((fst ph)\<lparr>documents := AList.update p a (documents (fst ph))\<rparr>, h'))"

definition WooWooProject_addDocument :: "(addr \<Rightarrow> document) \<Rightarrow> project \<Rightarrow> addr \<Rightarrow> project" where
  "WooWooProject_addDocument h p d =
     p\<lparr>documents := AList.update (documentPath (h d)) d (documents p)\<rparr>"

definition WooWooProject_getDocument :: "project \<Rightarrow> path \<Rightarrow> addr option" where
  "WooWooProject_getDocument p docPath = map_of (documents p) docPath"

text \<open>The overload taking a document: the first entry whose document has an equal path.\<close>

definition WooWooProject_getDocument_by_document ::
  "(addr \<Rightarrow> document) \<Rightarrow> project \<Rightarrow> addr \<Rightarrow> addr option" where
  "WooWooProject_getDocument_by_document h p d =
     map_option snd
       (List.find (\<lambda>doc. documentPath (h (snd doc)) = documentPath (h d)) (documents p))"

definition WooWooProject_getDocumentShared ::
  "(addr \<Rightarrow> document) \<Rightarrow> project \<Rightarrow> addr \<Rightarrow> addr option" where
  "WooWooProject_getDocumentShared h p d =
     map_option snd
       (List.find (\<lambda>doc. documentPath (h (snd doc)) = documentPath (h d)) (documents p))"

definition WooWooProject_deleteDocument ::
  "(addr \<Rightarrow> document) \<Rightarrow> project \<Rightarrow> addr option \<Rightarrow> project" where
  "WooWooProject_deleteDocument h p document =
     (case document of
        None \<Rightarrow> p
      | Some d \<Rightarrow> p\<lparr>documents := AList.delete (documentPath (h d)) (documents p)\<rparr>)"

fun load_entries :: "filesystem \<Rightarrow> (path \<times> fsnode) list \<Rightarrow> project \<times> store \<Rightarrow> project \<times> store" where
  "load_entries fs [] ph = ph"
| "load_entries fs (entry # entries) ph =
     load_entries fs entries
       (if is_regular_file (snd entry) \<and> extension (fst entry) = ''.woo''
        then WooWooProject_loadDocument fs (fst entry) ph
        else ph)"

text \<open>
  The constructor for a folder. Parsing the marker file is switched off in the source:
  \<open>woofile\<close> is the null pointer whatever the folder holds.
\<close>

definition WooWooProject :: "filesystem \<Rightarrow> path \<Rightarrow> store \<Rightarrow> error + project \<times> store" where
  "WooWooProject fs folder h =
     (case recursive_directory_iterator fs folder of
        Inl e \<Rightarrow> Inl e
      | Inr entries \<Rightarrow>
          Inr (load_entries fs entries
                 (\<lparr>projectFolderPath = Some folder, woofile = None, documents = []\<rparr>, h)))"

section \<open>The analyzer (WooWooAnalyzer.cpp)\<close>

text \<open>
  The analyzer owns the set of projects. Each project is heap-allocated and the set
  holds pointers, so the order of iteration is the order of the addresses; the list
  \<open>projects\<close> is the set in iteration order, and a project pointer is a position in it.
  Projects are only ever added at the end of the list by the model; every general
  result about an event holds for an arbitrary list, hence for every order.

  Modelled from the spec: \<^verbatim>\<open>utils::uriToPathString\<close> is declared in \<^verbatim>\<open>utils/utils.h\<close>,
  which is not among the sources; the spec treats the conversion from URI to path as
  an external, pure function. It is the parameter \<open>u2p\<close> of every operation that
  receives a URI.
\<close>

text \<open>
  A document lives as long as a \<^verbatim>\<open>shared_ptr\<close> owns it. Outside the span of one pass of
  \<^verbatim>\<open>renameFiles\<close>, which holds a shared handle of its own, the owners are the entries of
  the projects' maps: \<^verbatim>\<open>make_shared\<close> hands its result to a map at once. So a document is
  alive exactly while some entry of some map points to it, and erasing or overwriting
  its last entry destroys it. Dereferencing a pointer to a destroyed document is
  undefined behaviour; the field \<open>undefined_behaviour\<close> of the state records that a run
  has done so, and what the maps hold from then on stands for nothing the program
  guarantees.
\<close>

record analyzer =
  workspaceRootPath :: path
  projects :: "project list"
  heap :: store
  undefined_behaviour :: bool

definition referenced :: "project list \<Rightarrow> addr \<Rightarrow> bool" where
  "referenced ps d = list_ex (\<lambda>project. list_ex (\<lambda>entry. snd entry = d) (documents project)) ps"

fun first_index :: "('a \<Rightarrow> bool) \<Rightarrow> 'a list \<Rightarrow> nat option" where
  "first_index P [] = None"
| "first_index P (x # xs) = (if P x then Some 0 else map_option Suc (first_index P xs))"

definition findAllWooFiles :: "filesystem \<Rightarrow> path \<Rightarrow> error + path list" where
  "findAllWooFiles fs rootPath =
     (if exists_path fs rootPath \<and> is_directory fs rootPath then
        (case recursive_directory_iterator fs rootPath of
           Inl e \<Rightarrow> Inl e
         | Inr entries \<Rightarrow>
             Inr (remdups (map fst
               (filter (\<lambda>entry. is_regular_file (snd entry) \<and> extension (fst entry) = ''.woo'')
                  entries))))
      else Inr [])"

definition findProjectFolders :: "filesystem \<Rightarrow> path \<Rightarrow> error + path list" where
  "findProjectFolders fs rootPath =
     (case recursive_directory_iterator fs rootPath of
        Inl e \<Rightarrow> Inl e
      | Inr entries \<Rightarrow>
          Inr (map (\<lambda>entry. parent_path (fst entry))
            (filter (\<lambda>entry. is_regular_file (snd entry) \<and> filename (fst entry) = ''Woofile'')
               entries)))"

function findProjectFolder_loop :: "filesystem \<Rightarrow> path \<Rightarrow> path \<Rightarrow> path option" where
  "findProjectFolder_loop fs root parent =
     (if parent \<noteq> parent_path root \<and> parent \<noteq> parent_path parent then
        (if exists_path fs (path_slash parent ''Woofile'') then Some parent
         else findProjectFolder_loop fs root (parent_path parent))
      else None)"
  by pat_completeness auto
termination
proof (relation "measure (\<lambda>(fs, root, parent). length parent)")
  show "wf (measure (\<lambda>(fs, root, parent). length parent))"
    by simp
next
  fix fs :: filesystem and root parent :: path
  assume "parent \<noteq> parent_path root \<and> parent \<noteq> parent_path parent"
  then have "parent \<noteq> []"
    by (auto simp: parent_path_def)
  then show "((fs, root, parent_path parent), (fs, root, parent))
               \<in> measure (\<lambda>(fs, root, parent). length parent)"
    by (simp add: parent_path_def)
qed

definition findProjectFolder ::
  "(uri \<Rightarrow> path) \<Rightarrow> filesystem \<Rightarrow> analyzer \<Rightarrow> uri \<Rightarrow> path option" where
  "findProjectFolder u2p fs s uri =
     findProjectFolder_loop fs (workspaceRootPath s) (parent_path (u2p uri))"

fun first_document :: "project list \<Rightarrow> path \<Rightarrow> addr option" where
  "first_document [] pathToDoc = None"
| "first_document (project # rest) pathToDoc =
     (case WooWooProject_getDocument project pathToDoc of
        Some doc \<Rightarrow> Some doc
      | None \<Rightarrow> first_document rest pathToDoc)"

definition getDocument :: "analyzer \<Rightarrow> path \<Rightarrow> addr option" where
  "getDocument s pathToDoc = first_document (projects s) pathToDoc"

definition getDocumentByUri :: "(uri \<Rightarrow> path) \<Rightarrow> analyzer \<Rightarrow> uri \<Rightarrow> addr option" where
  "getDocumentByUri u2p s docUri = getDocument s (u2p docUri)"

definition getProjectByDocument :: "analyzer \<Rightarrow> addr \<Rightarrow> nat option" where
  "getProjectByDocument s document =
     first_index
       (\<lambda>project. WooWooProject_getDocument_by_document (cell (heap s)) project document \<noteq> None)
       (projects s)"

definition getProject :: "analyzer \<Rightarrow> path option \<Rightarrow> nat option" where
  "getProject s path = first_index (\<lambda>project. projectFolderPath project = path) (projects s)"

definition handleDocumentChange :: "(uri \<Rightarrow> path) \<Rightarrow> analyzer \<Rightarrow> uri \<Rightarrow> string \<Rightarrow> analyzer" where
  "handleDocumentChange u2p s uri src =
     (case getDocument s (u2p uri) of
        None \<Rightarrow> s
      | Some document \<Rightarrow>
          s\<lparr>heap := (heap s)\<lparr>cell :=
              (cell (heap s))(document := updateSource src (cell (heap s) document))\<rparr>\<rparr>)"

definition documentDidChange :: "(uri \<Rightarrow> path) \<Rightarrow> analyzer \<Rightarrow> uri \<Rightarrow> string \<Rightarrow> analyzer" where
  "documentDidChange u2p s uri src = handleDocumentChange u2p s uri src"

text \<open>
  \<^verbatim>\<open>WooWooAnalyzer::deleteDocument\<close> holds a raw pointer and calls
  \<^verbatim>\<open>project->deleteDocument(document)\<close> for every project in turn; each call reads
  \<^verbatim>\<open>document->documentPath\<close>. \<open>passed\<close> are the projects already passed, as the pass left
  them. A pass whose document no map owns any more dereferences a destroyed object:
  the loop ends there with the flag raised and the remaining projects untouched.
\<close>

fun deleteDocument_loop ::
  "(addr \<Rightarrow> document) \<Rightarrow> addr \<Rightarrow> project list \<Rightarrow> project list \<Rightarrow> project list \<times> bool" where
  "deleteDocument_loop h d passed [] = (passed, False)"
| "deleteDocument_loop h d passed (project # rest) =
     (if referenced (passed @ project # rest) d
      then deleteDocument_loop h d
             (passed @ [WooWooProject_deleteDocument h project (Some d)]) rest
      else (passed @ project # rest, True))"

definition deleteDocument :: "analyzer \<Rightarrow> addr option \<Rightarrow> analyzer" where
  "deleteDocument s document =
     (case document of
        None \<Rightarrow> s
      | Some d \<Rightarrow>
          (let r = deleteDocument_loop (cell (heap s)) d [] (projects s)
           in s\<lparr>projects := fst r,
                undefined_behaviour := (undefined_behaviour s \<or> snd r)\<rparr>))"

text \<open>The overload taking a string: its argument is converted as a URI.\<close>

definition deleteDocument_uri :: "(uri \<Rightarrow> path) \<Rightarrow> analyzer \<Rightarrow> uri \<Rightarrow> analyzer" where
  "deleteDocument_uri u2p s uri = deleteDocument s (getDocumentByUri u2p s uri)"

fun didDeleteFiles :: "(uri \<Rightarrow> path) \<Rightarrow> analyzer \<Rightarrow> uri list \<Rightarrow> analyzer" where
  "didDeleteFiles u2p s [] = s"
| "didDeleteFiles u2p s (deletedFileUri # uris) =
     didDeleteFiles u2p
       (case getDocumentByUri u2p s deletedFileUri of
          None \<Rightarrow> s
        | Some doc \<Rightarrow> deleteDocument s (Some doc))
       uris"

text \<open>
  Loading a document into the project at position \<open>i\<close>, and the lookup of a project with
  the fall-back to the project without a folder, as \<^verbatim>\<open>openDocument\<close> and \<^verbatim>\<open>renameFiles\<close>
  both write it.
\<close>

definition loadDocument_at :: "filesystem \<Rightarrow> nat \<Rightarrow> path \<Rightarrow> analyzer \<Rightarrow> analyzer" where
  "loadDocument_at fs i p s =
     (let (project', h') = WooWooProject_loadDocument fs p (projects s ! i, heap s)
      in s\<lparr>projects := (projects s)[i := project'], heap := h'\<rparr>)"

definition getProject_or_null :: "analyzer \<Rightarrow> path option \<Rightarrow> nat option" where
  "getProject_or_null s folder =
     (case getProject s folder of
        Some project \<Rightarrow> Some project
      | None \<Rightarrow> getProject s None)"

definition openDocument :: "(uri \<Rightarrow> path) \<Rightarrow> filesystem \<Rightarrow> analyzer \<Rightarrow> uri \<Rightarrow> analyzer" where
  "openDocument u2p fs s uri =
     (let docPath = u2p uri in
      case getDocument s docPath of
        Some doc \<Rightarrow> s
      | None \<Rightarrow>
          (case getProject_or_null s (findProjectFolder u2p fs s uri) of
             None \<Rightarrow> s
           | Some project \<Rightarrow> loadDocument_at fs project docPath s))"

text \<open>
  One pass of the loop of \<^verbatim>\<open>renameFiles\<close>: the new state and the pairs it appends to
  \<^verbatim>\<open>renamedDocuments\<close>. The shared handle is never null where it is used, since the old
  project was found by the same scan (lemma \<open>getDocumentShared_found\<close> below); the model
  skips the pair on that branch.
\<close>

definition renameFile ::
  "(uri \<Rightarrow> path) \<Rightarrow> filesystem \<Rightarrow> analyzer \<Rightarrow> uri \<times> uri \<Rightarrow> analyzer \<times> (path \<times> path) list" where
  "renameFile u2p fs s fileRename =
     (let oldUri = fst fileRename; newUri = snd fileRename;
          oldPath = u2p oldUri; newPath = u2p newUri in
      if endsWith (generic_string oldPath) ''.woo'' \<and> endsWith (generic_string newPath) ''.woo''
      then
        (case getDocument s oldPath of
           None \<Rightarrow> (s, [])
         | Some document \<Rightarrow>
             (case getProjectByDocument s document of
                None \<Rightarrow> (s, [])
              | Some oldProject \<Rightarrow>
                  (case WooWooProject_getDocumentShared (cell (heap s))
                          (projects s ! oldProject) document of
                     None \<Rightarrow> (s, [])
                   | Some documentShared \<Rightarrow>
                       (case getProject_or_null s (findProjectFolder u2p fs s newUri) of
                          None \<Rightarrow> (s, [(oldPath, newPath)])
                        | Some newProject \<Rightarrow>
                            (let h' = (cell (heap s))
                                   (document := (cell (heap s) document)\<lparr>documentPath := newPath\<rparr>);
                                 ps1 = (projects s)
                                   [oldProject := WooWooProject_deleteDocument h'
                                      (projects s ! oldProject) (Some document)];
                                 ps2 = ps1
                                   [newProject := WooWooProject_addDocument h'
                                      (ps1 ! newProject) documentShared]
                             in (s\<lparr>projects := ps2, heap := (heap s)\<lparr>cell := h'\<rparr>\<rparr>,
                                 [(oldPath, newPath)]))))))
      else if endsWith (generic_string oldPath) ''.woo''
      then (deleteDocument_uri u2p s (generic_string oldPath), [])
      else (s, []))"

text \<open>
  \<^verbatim>\<open>renameFiles\<close> returns what the navigator makes of \<^verbatim>\<open>renamedDocuments\<close>; the navigator
  is outside the sources, so the model returns the new state and the list handed to it.
\<close>

fun renameFiles_loop ::
  "(uri \<Rightarrow> path) \<Rightarrow> filesystem \<Rightarrow> (uri \<times> uri) list \<Rightarrow>
   analyzer \<times> (path \<times> path) list \<Rightarrow> analyzer \<times> (path \<times> path) list" where
  "renameFiles_loop u2p fs [] acc = acc"
| "renameFiles_loop u2p fs (fileRename # renames) acc =
     (let r = renameFile u2p fs (fst acc) fileRename
      in renameFiles_loop u2p fs renames (fst r, snd acc @ snd r))"

definition renameFiles ::
  "(uri \<Rightarrow> path) \<Rightarrow> filesystem \<Rightarrow> analyzer \<Rightarrow> (uri \<times> uri) list \<Rightarrow> analyzer \<times> (path \<times> path) list" where
  "renameFiles u2p fs s renames = renameFiles_loop u2p fs renames (s, [])"

text \<open>
  \<^verbatim>\<open>loadWorkspace\<close>. The projects found are constructed and inserted one by one, then the
  project without a folder; \<^verbatim>\<open>findAllWooFiles\<close> returns a \<^verbatim>\<open>std::set\<close>, here the list of
  its distinct members.
\<close>

fun construct_projects ::
  "filesystem \<Rightarrow> path list \<Rightarrow> project list \<times> store \<Rightarrow> error + project list \<times> store" where
  "construct_projects fs [] acc = Inr acc"
| "construct_projects fs (folder # folders) acc =
     (case WooWooProject fs folder (snd acc) of
        Inl e \<Rightarrow> Inl e
      | Inr ph \<Rightarrow> construct_projects fs folders (fst acc @ [fst ph], snd ph))"

fun load_unassigned :: "filesystem \<Rightarrow> nat \<Rightarrow> path list \<Rightarrow> analyzer \<Rightarrow> analyzer" where
  "load_unassigned fs nullProject [] s = s"
| "load_unassigned fs nullProject (woowooFile # files) s =
     load_unassigned fs nullProject files
       (if list_ex (\<lambda>project. WooWooProject_getDocument project woowooFile \<noteq> None) (projects s)
        then s
        else loadDocument_at fs nullProject woowooFile s)"

definition loadWorkspace ::
  "(uri \<Rightarrow> path) \<Rightarrow> filesystem \<Rightarrow> analyzer \<Rightarrow> uri \<Rightarrow> error + analyzer" where
  "loadWorkspace u2p fs s workspaceUri =
     (let root = u2p workspaceUri in
      case findProjectFolders fs root of
        Inl e \<Rightarrow> Inl e
      | Inr projectFolders \<Rightarrow>
          (case construct_projects fs projectFolders (projects s, heap s) of
             Inl e \<Rightarrow> Inl e
           | Inr psh \<Rightarrow>
               (case findAllWooFiles fs root of
                  Inl e \<Rightarrow> Inl e
                | Inr woowooFiles \<Rightarrow>
                    Inr (load_unassigned fs (length (fst psh)) woowooFiles
                           (s\<lparr>workspaceRootPath := root,
                              projects := fst psh @ [WooWooProject_default],
                              heap := snd psh\<rparr>)))))"

text \<open>The analyzer as its constructor leaves it: no project, no document.\<close>

definition WooWooAnalyzer :: analyzer where
  "WooWooAnalyzer =
     \<lparr>workspaceRootPath = [],
      projects = [],
      heap = \<lparr>cell = (\<lambda>a. \<lparr>documentPath = [], source = []\<rparr>), next_free = 0\<rparr>,
      undefined_behaviour = False\<rparr>"

section \<open>An instance of the URI conversion\<close>

text \<open>
  For evaluating the operations at concrete events the parameter \<open>u2p\<close> needs a value.
  \<open>file_uri_to_path\<close> does what a conversion of \<^verbatim>\<open>file://\<close> URIs does: it drops the scheme
  prefix, decodes percent escapes and splits the rest at the separators. No general
  result below depends on it.
\<close>

definition hex_value :: "char \<Rightarrow> nat option" where
  "hex_value c =
     (case first_index (\<lambda>x. x = c) ''0123456789abcdef'' of
        Some n \<Rightarrow> Some n
      | None \<Rightarrow> map_option (\<lambda>n. n + 10) (first_index (\<lambda>x. x = c) ''ABCDEF''))"

fun percent_decode :: "string \<Rightarrow> string" where
  "percent_decode (c # h # l # cs) =
     (if c = CHR ''%'' then
        (case hex_value h of
           None \<Rightarrow> c # percent_decode (h # l # cs)
         | Some a \<Rightarrow>
             (case hex_value l of
                None \<Rightarrow> c # percent_decode (h # l # cs)
              | Some b \<Rightarrow> char_of (16 * a + b) # percent_decode cs))
      else c # percent_decode (h # l # cs))"
| "percent_decode cs = cs"

fun components :: "string \<Rightarrow> string \<Rightarrow> path" where
  "components acc [] = (if acc = [] then [] else [rev acc])"
| "components acc (c # cs) =
     (if c = CHR ''/'' then (if acc = [] then components [] cs else rev acc # components [] cs)
      else components (c # acc) cs)"

definition file_uri_to_path :: "uri \<Rightarrow> path" where
  "file_uri_to_path uri =
     components [] (percent_decode (if take 7 uri = ''file://'' then drop 7 uri else uri))"

section \<open>The boundary search in the spec's words\<close>

text \<open>
  The spec describes the search as a walk: start at the path's parent directory; check
  the current directory for the marker file; ascend one level; end when the current
  directory is the workspace root's parent or is its own parent. \<open>upward_walk\<close> lists the
  directories such a walk checks, in the order it checks them.
\<close>

definition has_marker :: "filesystem \<Rightarrow> path \<Rightarrow> bool" where
  "has_marker fs dir = exists_path fs (path_slash dir ''Woofile'')"

definition walk_ends :: "path \<Rightarrow> path \<Rightarrow> bool" where
  "walk_ends root dir = (dir = parent_path root \<or> dir = parent_path dir)"

function upward_walk :: "path \<Rightarrow> path \<Rightarrow> path list" where
  "upward_walk root dir =
     (if walk_ends root dir then [] else dir # upward_walk root (parent_path dir))"
  by pat_completeness auto
termination
proof (relation "measure (\<lambda>(root, dir). length dir)")
  show "wf (measure (\<lambda>(root, dir). length dir))"
    by simp
next
  fix root dir :: path
  assume "\<not> walk_ends root dir"
  then have "dir \<noteq> []"
    by (auto simp: walk_ends_def parent_path_def)
  then show "((root, parent_path dir), (root, dir)) \<in> measure (\<lambda>(root, dir). length dir)"
    by (simp add: parent_path_def)
qed

section \<open>State invariants\<close>

text \<open>
  The spec's invariant on keys (I5): every entry of every project's map is stored under
  the path its document holds.
\<close>

definition keys_match_paths :: "analyzer \<Rightarrow> bool" where
  "keys_match_paths s =
     list_all (\<lambda>project.
        list_all (\<lambda>entry. documentPath (cell (heap s) (snd entry)) = fst entry) (documents project))
       (projects s)"

text \<open>
  Modelled from the spec: the conversion \<^verbatim>\<open>utils::uriToPathString\<close> is not among the
  sources. The spec has it normalise a URI into the one canonical form in which path
  keys are stored (I5: "path keys use one canonical normalized form; every insert and
  lookup must apply the same normalization"). A path in canonical form is one the
  normalisation maps to itself: \<open>path_stable u2p p\<close> says that the conversion, handed
  the string of the path \<open>p\<close>, gives \<open>p\<close> back.
\<close>

definition path_stable :: "(uri \<Rightarrow> path) \<Rightarrow> path \<Rightarrow> bool" where
  "path_stable u2p p = (u2p (generic_string p) = p)"

section \<open>Concrete workspaces\<close>

text \<open>
  The scenario of the spec: root \<^verbatim>\<open>/w\<close> with \<^verbatim>\<open>/w/projA/Woofile\<close>, \<^verbatim>\<open>/w/projA/doc1.woo\<close> and
  \<^verbatim>\<open>/w/doc2.woo\<close>, and the state \<^verbatim>\<open>loadWorkspace\<close> builds from it.
\<close>

definition example_fs :: filesystem where
  "example_fs = Directory [(''w'', Directory
      [(''projA'', Directory [(''Woofile'', RegularFile []), (''doc1.woo'', RegularFile ''one'')]),
       (''doc2.woo'', RegularFile ''two'')])]"

definition example_state :: analyzer where
  "example_state =
     \<lparr>workspaceRootPath = [''w''],
      projects =
        [\<lparr>projectFolderPath = Some [''w'', ''projA''], woofile = None,
          documents = [([''w'', ''projA'', ''doc1.woo''], 0)]\<rparr>,
         \<lparr>projectFolderPath = None, woofile = None,
          documents = [([''w'', ''doc2.woo''], 1)]\<rparr>],
      heap = \<lparr>cell = (\<lambda>a. \<lparr>documentPath = [], source = []\<rparr>)
                 (0 := \<lparr>documentPath = [''w'', ''projA'', ''doc1.woo''], source = ''one''\<rparr>,
                  1 := \<lparr>documentPath = [''w'', ''doc2.woo''], source = ''two''\<rparr>),
              next_free = 2\<rparr>,
      undefined_behaviour = False\<rparr>"


text \<open>
  A workspace with one source file whose name holds a space, \<^verbatim>\<open>/w/a b.woo\<close>, and the state
  loaded from it.
\<close>

definition percent_fs :: filesystem where
  "percent_fs = Directory [(''w'', Directory [(''a b.woo'', RegularFile ''text'')])]"

definition percent_state :: analyzer where
  "percent_state =
     \<lparr>workspaceRootPath = [''w''],
      projects = [\<lparr>projectFolderPath = None, woofile = None,
                  documents = [([''w'', ''a b.woo''], 0)]\<rparr>],
      heap = \<lparr>cell = (\<lambda>a. \<lparr>documentPath = [], source = []\<rparr>)
                 (0 := \<lparr>documentPath = [''w'', ''a b.woo''], source = ''text''\<rparr>),
              next_free = 1\<rparr>,
      undefined_behaviour = False\<rparr>"

text \<open>
  A workspace whose root \<^verbatim>\<open>/w\<close> and whose folder \<^verbatim>\<open>/w/sub\<close> both hold a marker file, with
  one source file \<^verbatim>\<open>/w/sub/a.woo\<close>, and the state loaded from it.
\<close>

definition nested_fs :: filesystem where
  "nested_fs = Directory [(''w'', Directory
      [(''Woofile'', RegularFile []),
       (''sub'', Directory [(''Woofile'', RegularFile []), (''a.woo'', RegularFile ''text'')])])]"

definition nested_state :: analyzer where
  "nested_state =
     \<lparr>workspaceRootPath = [''w''],
      projects =
        [\<lparr>projectFolderPath = Some [''w''], woofile = None,
          documents = [([''w'', ''sub'', ''a.woo''], 0)]\<rparr>,
         \<lparr>projectFolderPath = Some [''w'', ''sub''], woofile = None,
          documents = [([''w'', ''sub'', ''a.woo''], 1)]\<rparr>,
         \<lparr>projectFolderPath = None, woofile = None, documents = []\<rparr>],
      heap = \<lparr>cell = (\<lambda>a. \<lparr>documentPath = [], source = []\<rparr>)
                 (0 := \<lparr>documentPath = [''w'', ''sub'', ''a.woo''], source = ''text''\<rparr>,
                  1 := \<lparr>documentPath = [''w'', ''sub'', ''a.woo''], source = ''text''\<rparr>),
              next_free = 2\<rparr>,
      undefined_behaviour = False\<rparr>"

text \<open>
  A workspace with the single source file \<^verbatim>\<open>/w/x.woo\<close>, the state loaded from it, and the
  states after four events in a row: the file is renamed to \<^verbatim>\<open>/w/y.woo\<close>; \<^verbatim>\<open>/w/y.woo\<close> is
  deleted; a new \<^verbatim>\<open>/w/y.woo\<close> is created and opened; it is renamed to \<^verbatim>\<open>/w/z.woo\<close>. The
  operations look at the filesystem only for marker files and for the text of a
  document they open.
\<close>

definition single_fs :: filesystem where
  "single_fs = Directory [(''w'', Directory [(''x.woo'', RegularFile ''text'')])]"

definition single_fs_renamed :: filesystem where
  "single_fs_renamed = Directory [(''w'', Directory [(''y.woo'', RegularFile ''text'')])]"

definition single_state :: analyzer where
  "single_state =
     \<lparr>workspaceRootPath = [''w''],
      projects = [\<lparr>projectFolderPath = None, woofile = None,
                  documents = [([''w'', ''x.woo''], 0)]\<rparr>],
      heap = \<lparr>cell = (\<lambda>a. \<lparr>documentPath = [], source = []\<rparr>)
                 (0 := \<lparr>documentPath = [''w'', ''x.woo''], source = ''text''\<rparr>),
              next_free = 1\<rparr>,
      undefined_behaviour = False\<rparr>"

definition after_rename :: analyzer where
  "after_rename = fst (renameFiles file_uri_to_path single_fs_renamed single_state
     [(''file:///w/x.woo'', ''file:///w/y.woo'')])"

definition after_delete :: analyzer where
  "after_delete = didDeleteFiles file_uri_to_path after_rename [''file:///w/y.woo'']"

definition after_open :: analyzer where
  "after_open = openDocument file_uri_to_path single_fs_renamed after_delete ''file:///w/y.woo''"

definition after_second_rename :: analyzer where
  "after_second_rename = fst (renameFiles file_uri_to_path single_fs_renamed after_open
     [(''file:///w/y.woo'', ''file:///w/z.woo'')])"

text \<open>
  A workspace with two project folders, \<^verbatim>\<open>/w/p\<close> holding \<^verbatim>\<open>a.woo\<close> and \<^verbatim>\<open>/w/q\<close> holding
  \<^verbatim>\<open>b.woo\<close>, and the state loaded from it; and the same tree after the marker file of
  \<^verbatim>\<open>/w/q\<close> has been removed and \<^verbatim>\<open>/w/p/a.woo\<close> has been moved over \<^verbatim>\<open>/w/q/b.woo\<close>.
\<close>

definition two_projects_fs :: filesystem where
  "two_projects_fs = Directory [(''w'', Directory
      [(''p'', Directory [(''Woofile'', RegularFile []), (''a.woo'', RegularFile ''alpha'')]),
       (''q'', Directory [(''Woofile'', RegularFile []), (''b.woo'', RegularFile ''beta'')])])]"

definition marker_removed_fs :: filesystem where
  "marker_removed_fs = Directory [(''w'', Directory
      [(''p'', Directory [(''Woofile'', RegularFile [])]),
       (''q'', Directory [(''b.woo'', RegularFile ''alpha'')])])]"

definition two_projects_state :: analyzer where
  "two_projects_state =
     \<lparr>workspaceRootPath = [''w''],
      projects =
        [\<lparr>projectFolderPath = Some [''w'', ''p''], woofile = None,
          documents = [([''w'', ''p'', ''a.woo''], 0)]\<rparr>,
         \<lparr>projectFolderPath = Some [''w'', ''q''], woofile = None,
          documents = [([''w'', ''q'', ''b.woo''], 1)]\<rparr>,
         \<lparr>projectFolderPath = None, woofile = None, documents = []\<rparr>],
      heap = \<lparr>cell = (\<lambda>a. \<lparr>documentPath = [], source = []\<rparr>)
                 (0 := \<lparr>documentPath = [''w'', ''p'', ''a.woo''], source = ''alpha''\<rparr>,
                  1 := \<lparr>documentPath = [''w'', ''q'', ''b.woo''], source = ''beta''\<rparr>),
              next_free = 2\<rparr>,
      undefined_behaviour = False\<rparr>"



section \<open>Basic facts\<close>

lemma first_index_Some:
  "first_index P xs = Some i \<Longrightarrow> i < length xs \<and> P (xs ! i) \<and> (\<forall>j<i. \<not> P (xs ! j))"
proof (induction xs arbitrary: i)
  case Nil
  then show ?case by simp
next
  case (Cons x xs)
  show ?case
  proof (cases "P x")
    case True
    with Cons.prems show ?thesis by simp
  next
    case False
    with Cons.prems obtain k where k: "first_index P xs = Some k" "i = Suc k"
      by auto
    from Cons.IH [OF k(1)] have ih: "k < length xs" "P (xs ! k)" "\<forall>j<k. \<not> P (xs ! j)"
      by auto
    have "\<forall>j<Suc k. \<not> P ((x # xs) ! j)"
    proof (intro allI impI)
      fix j assume "j < Suc k"
      then show "\<not> P ((x # xs) ! j)"
        using False ih(3) by (cases j) auto
    qed
    with ih k show ?thesis by simp
  qed
qed

lemma first_index_None: "first_index P xs = None \<longleftrightarrow> (\<forall>x\<in>set xs. \<not> P x)"
  by (induction xs) auto

lemma first_document_None:
  "first_document ps k = None \<longleftrightarrow> (\<forall>p\<in>set ps. WooWooProject_getDocument p k = None)"
  by (induction ps) (auto split: option.splits)

lemma delete_as_filter: "AList.delete k al = filter (\<lambda>entry. fst entry \<noteq> k) al"
  by (induction al) auto

text \<open>Conversions of the URIs used in the concrete events.\<close>

lemmas load_defs = loadWorkspace_def WooWooAnalyzer_def
      findProjectFolders_def recursive_directory_iterator_def filename_def parent_path_def
      WooWooProject_def extension_def WooWooProject_loadDocument_def make_shared_def
      DialectedWooWooDocument_def findAllWooFiles_def exists_path_def is_directory_def
      WooWooProject_default_def WooWooProject_getDocument_def loadDocument_at_def Let_def

lemmas event_defs = renameFiles_def renameFile_def Let_def
      getDocument_def WooWooProject_getDocument_def
      getProjectByDocument_def WooWooProject_getDocument_by_document_def
      WooWooProject_getDocumentShared_def getProject_or_null_def getProject_def
      findProjectFolder_def findProjectFolder_loop.simps parent_path_def path_slash_def exists_path_def
      WooWooProject_deleteDocument_def WooWooProject_addDocument_def
      deleteDocument_uri_def getDocumentByUri_def deleteDocument_def referenced_def
      openDocument_def loadDocument_at_def WooWooProject_loadDocument_def make_shared_def
      DialectedWooWooDocument_def

lemma uri_w: "file_uri_to_path ''file:///w'' = [''w'']"
  by code_simp

lemma uri_doc1: "file_uri_to_path ''file:///w/projA/doc1.woo'' = [''w'', ''projA'', ''doc1.woo'']"
  by code_simp

lemma uri_doc2: "file_uri_to_path ''file:///w/doc2.woo'' = [''w'', ''doc2.woo'']"
  by code_simp

lemma uri_doc3: "file_uri_to_path ''file:///w/doc3.woo'' = [''w'', ''doc3.woo'']"
  by code_simp

lemma load_example:
  "loadWorkspace file_uri_to_path example_fs WooWooAnalyzer ''file:///w'' = Inr example_state"
  by (simp add: loadWorkspace_def uri_w example_fs_def example_state_def WooWooAnalyzer_def
      findProjectFolders_def recursive_directory_iterator_def filename_def parent_path_def
      WooWooProject_def extension_def WooWooProject_loadDocument_def make_shared_def
      DialectedWooWooDocument_def findAllWooFiles_def exists_path_def is_directory_def
      WooWooProject_default_def WooWooProject_getDocument_def loadDocument_at_def Let_def)

lemma load_nested:
  "loadWorkspace file_uri_to_path nested_fs WooWooAnalyzer ''file:///w'' = Inr nested_state"
  by (simp add: load_defs uri_w nested_fs_def nested_state_def)

lemma load_single:
  "loadWorkspace file_uri_to_path single_fs WooWooAnalyzer ''file:///w'' = Inr single_state"
  by (simp add: load_defs uri_w single_fs_def single_state_def)

section \<open>The boundary search (C4)\<close>

declare upward_walk.simps [simp del]
declare findProjectFolder_loop.simps [simp del]

lemma loop_is_first_marker:
  "findProjectFolder_loop fs root dir = List.find (has_marker fs) (upward_walk root dir)"
proof (induction root dir rule: upward_walk.induct)
  case (1 root dir)
  show ?case
  proof (cases "walk_ends root dir")
    case True
    then show ?thesis
      by (subst findProjectFolder_loop.simps, subst upward_walk.simps)
         (auto simp: walk_ends_def)
  next
    case False
    with 1 have ih: "findProjectFolder_loop fs root (parent_path dir)
                      = List.find (has_marker fs) (upward_walk root (parent_path dir))"
      by simp
    from False show ?thesis
      by (subst findProjectFolder_loop.simps, subst upward_walk.simps)
         (auto simp: walk_ends_def has_marker_def ih)
  qed
qed

lemma upward_walk_nth:
  "i < length (upward_walk root dir) \<Longrightarrow>
     upward_walk root dir ! i = (parent_path ^^ i) dir \<and>
     \<not> walk_ends root (upward_walk root dir ! i)"
proof (induction root dir arbitrary: i rule: upward_walk.induct)
  case (1 root dir)
  show ?case
  proof (cases "walk_ends root dir")
    case True
    with "1.prems" show ?thesis
      by (simp add: upward_walk.simps)
  next
    case False
    then have eq: "upward_walk root dir = dir # upward_walk root (parent_path dir)"
      by (subst upward_walk.simps) simp
    show ?thesis
    proof (cases i)
      case 0
      with False eq show ?thesis by simp
    next
      case (Suc k)
      with "1.prems" eq have "k < length (upward_walk root (parent_path dir))"
        by simp
      from "1.IH" [OF False this] Suc eq show ?thesis
        by (auto simp: funpow_swap1)
    qed
  qed
qed

lemma upward_walk_end:
  "walk_ends root ((parent_path ^^ length (upward_walk root dir)) dir)"
proof (induction root dir rule: upward_walk.induct)
  case (1 root dir)
  show ?case
  proof (cases "walk_ends root dir")
    case True
    then show ?thesis
      by (simp add: upward_walk.simps)
  next
    case False
    then have eq: "upward_walk root dir = dir # upward_walk root (parent_path dir)"
      by (subst upward_walk.simps) simp
    from "1.IH" [OF False] show ?thesis
      by (simp add: eq funpow_swap1)
  qed
qed

text \<open>
  C4. For every path, \<open>findProjectFolder\<close> is the walk of the spec. The directories
  checked are, in order, the parent of the path, its parent, and so on (the \<open>i\<close>-th is
  \<open>i + 1\<close> levels above the path), none of them the workspace root's parent or its own
  parent; the first directory above them is the workspace root's parent or its own
  parent. The result is the first checked directory that holds the marker file, and
  none when no checked directory holds it.
\<close>

theorem findProjectFolder_upward_walk:
  "findProjectFolder u2p fs s uri =
     List.find (has_marker fs) (upward_walk (workspaceRootPath s) (parent_path (u2p uri))) \<and>
   (\<forall>i<length (upward_walk (workspaceRootPath s) (parent_path (u2p uri))).
      upward_walk (workspaceRootPath s) (parent_path (u2p uri)) ! i
        = (parent_path ^^ Suc i) (u2p uri) \<and>
      \<not> walk_ends (workspaceRootPath s) ((parent_path ^^ Suc i) (u2p uri))) \<and>
   walk_ends (workspaceRootPath s)
     ((parent_path ^^ Suc (length (upward_walk (workspaceRootPath s) (parent_path (u2p uri)))))
        (u2p uri))"
proof (intro conjI allI impI)
  show "findProjectFolder u2p fs s uri =
     List.find (has_marker fs) (upward_walk (workspaceRootPath s) (parent_path (u2p uri)))"
    by (simp add: findProjectFolder_def loop_is_first_marker)
next
  fix i
  assume i: "i < length (upward_walk (workspaceRootPath s) (parent_path (u2p uri)))"
  from upward_walk_nth [OF i]
  show "upward_walk (workspaceRootPath s) (parent_path (u2p uri)) ! i
          = (parent_path ^^ Suc i) (u2p uri)"
    by (simp add: funpow_swap1)
  from upward_walk_nth [OF i]
  show "\<not> walk_ends (workspaceRootPath s) ((parent_path ^^ Suc i) (u2p uri))"
    by (auto simp: funpow_swap1)
next
  from upward_walk_end [of "workspaceRootPath s" "parent_path (u2p uri)"]
  show "walk_ends (workspaceRootPath s)
     ((parent_path ^^ Suc (length (upward_walk (workspaceRootPath s) (parent_path (u2p uri)))))
        (u2p uri))"
    by (simp add: funpow_swap1)
qed

lemma walk_doc1:
  "upward_walk [''w''] [''w'', ''projA''] = [[''w'', ''projA''], [''w'']]"
  by (simp add: upward_walk.simps walk_ends_def parent_path_def)

lemma walk_doc2:
  "upward_walk [''w''] [''w''] = [[''w'']]"
  by (simp add: upward_walk.simps walk_ends_def parent_path_def)

theorem findProjectFolder_upward_walk_witness:
  "findProjectFolder file_uri_to_path example_fs example_state ''file:///w/projA/doc1.woo''
     = Some [''w'', ''projA''] \<and>
   findProjectFolder file_uri_to_path example_fs example_state ''file:///w/doc2.woo'' = None \<and>
   upward_walk [''w''] [''w'', ''projA''] ! 1 = (parent_path ^^ 2) [''w'', ''projA'', ''doc1.woo''] \<and>
   walk_ends [''w''] ((parent_path ^^ 3) [''w'', ''projA'', ''doc1.woo''])"
proof -
  have ws: "workspaceRootPath example_state = [''w'']"
    by (simp add: example_state_def)
  have m1: "has_marker example_fs [''w'', ''projA'']"
    by (simp add: has_marker_def exists_path_def path_slash_def example_fs_def)
  have m2: "\<not> has_marker example_fs [''w'']"
    by (simp add: has_marker_def exists_path_def path_slash_def example_fs_def)
  have p1: "parent_path [''w'', ''projA'', ''doc1.woo''] = [''w'', ''projA'']"
    by (simp add: parent_path_def)
  have p2: "parent_path [''w'', ''doc2.woo''] = [''w'']"
    by (simp add: parent_path_def)
  note t1 = findProjectFolder_upward_walk
    [of file_uri_to_path example_fs example_state "''file:///w/projA/doc1.woo''"]
  note t2 = findProjectFolder_upward_walk
    [of file_uri_to_path example_fs example_state "''file:///w/doc2.woo''"]
  have a: "findProjectFolder file_uri_to_path example_fs example_state ''file:///w/projA/doc1.woo''
     = Some [''w'', ''projA'']"
    using t1 by (simp add: uri_doc1 ws p1 walk_doc1 m1)
  have b: "findProjectFolder file_uri_to_path example_fs example_state ''file:///w/doc2.woo'' = None"
    using t2 by (simp add: uri_doc2 ws p2 walk_doc2 m2)
  have c: "upward_walk [''w''] [''w'', ''projA''] ! 1 = (parent_path ^^ 2) [''w'', ''projA'', ''doc1.woo'']"
    using t1 by (simp add: uri_doc1 ws walk_doc1 numeral_2_eq_2 parent_path_def)
  have d: "walk_ends [''w''] ((parent_path ^^ 3) [''w'', ''projA'', ''doc1.woo''])"
    using t1 by (simp add: uri_doc1 ws walk_doc1 numeral_3_eq_3 parent_path_def)
  from a b c d show ?thesis by blast
qed

section \<open>Opening a tracked document (C10)\<close>

text \<open>
  C10. For every path already tracked by some project, \<open>openDocument\<close> on that path
  returns the state it was given: no document is created or overwritten, no project's
  map changes, every document keeps its source text.
\<close>

theorem openDocument_tracked_unchanged:
  "getDocument s (u2p uri) = Some doc \<Longrightarrow> openDocument u2p fs s uri = s"
  by (simp add: openDocument_def)

theorem openDocument_tracked_unchanged_witness:
  "getDocument example_state (file_uri_to_path ''file:///w/doc2.woo'') = Some 1 \<and>
   openDocument file_uri_to_path example_fs example_state ''file:///w/doc2.woo'' = example_state"
proof -
  have h: "getDocument example_state (file_uri_to_path ''file:///w/doc2.woo'') = Some 1"
    by (simp add: uri_doc2 getDocument_def example_state_def WooWooProject_getDocument_def)
  from h openDocument_tracked_unchanged
    [where s = example_state and u2p = file_uri_to_path and uri = "''file:///w/doc2.woo''"
       and fs = example_fs, OF h]
  show ?thesis
    by simp
qed

section \<open>Deleting a document from every project (C9)\<close>

text \<open>
  While every pass finds the document alive the loop does what it is written for: it
  erases the key in every project.
\<close>

lemma deleteDocument_loop_defined:
  "deleteDocument_loop h d passed rest = (ps, False) \<Longrightarrow>
     ps = passed @ map (\<lambda>project. WooWooProject_deleteDocument h project (Some d)) rest"
proof (induction rest arbitrary: passed)
  case Nil
  then show ?case by simp
next
  case (Cons project rest)
  from Cons.prems have "referenced (passed @ project # rest) d"
    by (simp split: if_splits)
  with Cons.prems
  have "deleteDocument_loop h d (passed @ [WooWooProject_deleteDocument h project (Some d)]) rest
          = (ps, False)"
    by simp
  from Cons.IH [OF this] show ?case by simp
qed


text \<open>
  A pass is undefined as soon as no map owns the document any more. That is the case
  whenever the projects that hold the document are followed, in the order of
  iteration, by one more project: let \<open>owner\<close> hold the document under its path only, and
  let no other project hold it. The pass over \<open>owner\<close> erases the entry and destroys the
  document, and the pass over the next project dereferences the dangling pointer.
\<close>

lemma deleteDocument_keeps_unreferenced:
  "\<not> list_ex (\<lambda>entry. snd entry = d) (documents p) \<Longrightarrow>
   \<not> list_ex (\<lambda>entry. snd entry = d) (documents (WooWooProject_deleteDocument h p (Some d')))"
  by (auto simp: WooWooProject_deleteDocument_def list_ex_iff AList.delete_eq)

lemma deleteDocument_drops_owner:
  "\<forall>entry\<in>set (documents p). snd entry = d \<longrightarrow> fst entry = documentPath (h d) \<Longrightarrow>
   \<not> list_ex (\<lambda>entry. snd entry = d) (documents (WooWooProject_deleteDocument h p (Some d)))"
  by (auto simp: WooWooProject_deleteDocument_def list_ex_iff AList.delete_eq)

lemma referenced_append: "referenced (xs @ ys) d = (referenced xs d \<or> referenced ys d)"
  by (simp add: referenced_def)

lemma referenced_Cons:
  "referenced (p # ps) d = (list_ex (\<lambda>entry. snd entry = d) (documents p) \<or> referenced ps d)"
  by (simp add: referenced_def)

lemma referenced_Nil: "\<not> referenced [] d"
  by (simp add: referenced_def)

lemma deleteDocument_loop_dangling:
  assumes "\<not> referenced passed d"
    and "\<not> referenced before d"
    and "\<forall>entry\<in>set (documents owner). snd entry = d \<longrightarrow> fst entry = documentPath (h d)"
    and "\<not> referenced later d"
    and "later \<noteq> []"
  shows "snd (deleteDocument_loop h d passed (before @ owner # later))"
  using assms
proof (induction before arbitrary: passed)
  case Nil
  from Nil.prems(5) obtain a later' where l: "later = a # later'"
    by (cases later) auto
  have "\<not> referenced ((passed @ [WooWooProject_deleteDocument h owner (Some d)]) @ a # later') d"
    using Nil.prems(1,3,4) deleteDocument_drops_owner [of owner d h]
    by (simp add: referenced_append referenced_Cons referenced_Nil l)
  then show ?case
    by (simp add: l)
next
  case (Cons b before)
  from Cons.prems(2) have nb: "\<not> list_ex (\<lambda>entry. snd entry = d) (documents b)"
    and nbefore: "\<not> referenced before d"
    by (simp_all add: referenced_Cons)
  have "\<not> referenced (passed @ [WooWooProject_deleteDocument h b (Some d)]) d"
    using Cons.prems(1) deleteDocument_keeps_unreferenced [OF nb, of h d]
    by (simp add: referenced_append referenced_Cons referenced_Nil)
  from Cons.IH [OF this nbefore Cons.prems(3,4,5)] show ?case
    by simp
qed

lemma deleteDocument_dangling:
  assumes "projects s = before @ owner # later"
    and "\<not> referenced before d"
    and "\<forall>entry\<in>set (documents owner).
           snd entry = d \<longrightarrow> fst entry = documentPath (cell (heap s) d)"
    and "\<not> referenced later d"
    and "later \<noteq> []"
  shows "undefined_behaviour (deleteDocument s (Some d))"
  using deleteDocument_loop_dangling
    [where h = "cell (heap s)" and d = d and passed = "[]" and before = before
       and owner = owner and later = later]
    assms(2-5)
  by (simp add: deleteDocument_def Let_def assms(1) referenced_Nil)

lemma uri_sub_a: "file_uri_to_path ''file:///w/sub/a.woo'' = [''w'', ''sub'', ''a.woo'']"
  by code_simp

text \<open>
  C9 at concrete inputs. In the state loaded from the nested workspace the projects of
  \<^verbatim>\<open>/w\<close> and of \<^verbatim>\<open>/w/sub\<close> each hold a document of their own under \<^verbatim>\<open>/w/sub/a.woo\<close>.
  \<open>didDeleteFiles\<close> on that path finds the first one and calls \<open>deleteDocument\<close>: the pass
  over the first project erases the only entry that owns the document, which destroys
  it, and the pass over the second project reads the path through the dangling
  pointer. The run is undefined from there; the second project's entry under the
  document's path is not erased by any defined step. The order in which the set of
  projects is iterated does not matter here: whichever of the two projects comes first
  owns the document the lookup finds, and the other one follows it; the reversed list
  is evaluated as well. The same happens in the state loaded from the spec's scenario
  when the project of \<^verbatim>\<open>/w/projA\<close>, which owns the document of \<^verbatim>\<open>/w/projA/doc1.woo\<close>, is
  iterated before the project without a folder.
\<close>

theorem deleteDocument_reads_destroyed_document:
  "loadWorkspace file_uri_to_path nested_fs WooWooAnalyzer ''file:///w'' = Inr nested_state \<and>
   getDocument nested_state (file_uri_to_path ''file:///w/sub/a.woo'') = Some 0 \<and>
   referenced (projects nested_state) 0 \<and>
   undefined_behaviour (didDeleteFiles file_uri_to_path nested_state [''file:///w/sub/a.woo'']) \<and>
   map documents
     (projects (didDeleteFiles file_uri_to_path nested_state [''file:///w/sub/a.woo'']))
     = [[], [([''w'', ''sub'', ''a.woo''], 1)], []] \<and>
   getDocument (nested_state\<lparr>projects := rev (projects nested_state)\<rparr>)
     (file_uri_to_path ''file:///w/sub/a.woo'') = Some 1 \<and>
   undefined_behaviour
     (didDeleteFiles file_uri_to_path (nested_state\<lparr>projects := rev (projects nested_state)\<rparr>)
        [''file:///w/sub/a.woo'']) \<and>
   loadWorkspace file_uri_to_path example_fs WooWooAnalyzer ''file:///w'' = Inr example_state \<and>
   getDocument example_state [''w'', ''projA'', ''doc1.woo''] = Some 0 \<and>
   undefined_behaviour (deleteDocument example_state (Some 0))"
proof -
  have nested:
    "getDocument nested_state [''w'', ''sub'', ''a.woo''] = Some 0"
    "referenced (projects nested_state) 0"
    "undefined_behaviour (didDeleteFiles file_uri_to_path nested_state [''file:///w/sub/a.woo''])"
    "map documents
       (projects (didDeleteFiles file_uri_to_path nested_state [''file:///w/sub/a.woo'']))
       = [[], [([''w'', ''sub'', ''a.woo''], 1)], []]"
    by (simp_all add: uri_sub_a nested_state_def getDocument_def getDocumentByUri_def
        WooWooProject_getDocument_def deleteDocument_def referenced_def
        WooWooProject_deleteDocument_def Let_def)
  have reversed:
    "getDocument (nested_state\<lparr>projects := rev (projects nested_state)\<rparr>)
       [''w'', ''sub'', ''a.woo''] = Some 1"
    "undefined_behaviour
       (didDeleteFiles file_uri_to_path (nested_state\<lparr>projects := rev (projects nested_state)\<rparr>)
          [''file:///w/sub/a.woo''])"
    by (simp_all add: uri_sub_a nested_state_def getDocument_def getDocumentByUri_def
        WooWooProject_getDocument_def deleteDocument_def referenced_def
        WooWooProject_deleteDocument_def Let_def)
  have example:
    "getDocument example_state [''w'', ''projA'', ''doc1.woo''] = Some 0"
    "undefined_behaviour (deleteDocument example_state (Some 0))"
    by (simp_all add: example_state_def getDocument_def WooWooProject_getDocument_def
        deleteDocument_def referenced_def WooWooProject_deleteDocument_def Let_def)
  from load_nested load_example nested reversed example show ?thesis
    by (simp add: uri_sub_a)
qed

section \<open>Lookups and the moving pass of \<open>renameFiles\<close>\<close>

lemma first_index_cong:
  "(\<And>x. x \<in> set xs \<Longrightarrow> P x = Q x) \<Longrightarrow> first_index P xs = first_index Q xs"
  by (induction xs) auto

lemma first_document_first_index:
  "first_document ps k =
     (case first_index (\<lambda>p. WooWooProject_getDocument p k \<noteq> None) ps of
        None \<Rightarrow> None
      | Some i \<Rightarrow> WooWooProject_getDocument (ps ! i) k)"
  by (induction ps) (auto split: option.splits)

lemma map_of_as_find: "map_of al k = map_option snd (List.find (\<lambda>entry. fst entry = k) al)"
  by (induction al) auto

lemma find_cong_set:
  "(\<And>x. x \<in> set xs \<Longrightarrow> P x = Q x) \<Longrightarrow> List.find P xs = List.find Q xs"
  by (induction xs) auto

lemma first_document_Some:
  "first_document ps k = Some a \<Longrightarrow> \<exists>q\<in>set ps. WooWooProject_getDocument q k = Some a"
  by (induction ps) (auto split: option.splits)

text \<open>A tracked document always has a project in the scan by path, and a shared handle there.\<close>

lemma tracked_has_project:
  assumes "getDocument s k = Some a"
  shows "\<exists>j. getProjectByDocument s a = Some j"
proof -
  from assms have "\<exists>q\<in>set (projects s). WooWooProject_getDocument q k = Some a"
    by (simp add: getDocument_def first_document_Some)
  then obtain q where q: "q \<in> set (projects s)" "map_of (documents q) k = Some a"
    by (auto simp: WooWooProject_getDocument_def)
  then have "(k, a) \<in> set (documents q)"
    by (simp add: map_of_SomeD)
  then have "WooWooProject_getDocument_by_document (cell (heap s)) q a \<noteq> None"
    by (auto simp: WooWooProject_getDocument_by_document_def find_None_iff)
  with q(1) have "getProjectByDocument s a \<noteq> None"
    by (auto simp: getProjectByDocument_def first_index_None)
  then show ?thesis by auto
qed


lemma keys_match_pathsD:
  "keys_match_paths s \<Longrightarrow> p \<in> set (projects s) \<Longrightarrow> e \<in> set (documents p) \<Longrightarrow>
     documentPath (cell (heap s) (snd e)) = fst e"
  by (auto simp: keys_match_paths_def list_all_iff)

lemma tracked_path:
  assumes "keys_match_paths s" and "getDocument s k = Some a"
  shows "documentPath (cell (heap s) a) = k"
proof -
  from assms(2) have "\<exists>q\<in>set (projects s). WooWooProject_getDocument q k = Some a"
    by (simp add: getDocument_def first_document_Some)
  then obtain q where q: "q \<in> set (projects s)" "map_of (documents q) k = Some a"
    by (auto simp: WooWooProject_getDocument_def)
  then have "(k, a) \<in> set (documents q)"
    by (simp add: map_of_SomeD)
  from keys_match_pathsD [OF assms(1) q(1) this] show ?thesis by simp
qed

lemma by_path_is_by_key:
  assumes "keys_match_paths s" and "p \<in> set (projects s)"
  shows "WooWooProject_getDocumentShared (cell (heap s)) p a
           = WooWooProject_getDocument p (documentPath (cell (heap s) a))"
    and "WooWooProject_getDocument_by_document (cell (heap s)) p a
           = WooWooProject_getDocument p (documentPath (cell (heap s) a))"
proof -
  have "List.find (\<lambda>doc. documentPath (cell (heap s) (snd doc)) = documentPath (cell (heap s) a))
          (documents p)
        = List.find (\<lambda>entry. fst entry = documentPath (cell (heap s) a)) (documents p)"
    by (rule find_cong_set) (simp add: keys_match_pathsD [OF assms])
  then show "WooWooProject_getDocumentShared (cell (heap s)) p a
           = WooWooProject_getDocument p (documentPath (cell (heap s) a))"
    and "WooWooProject_getDocument_by_document (cell (heap s)) p a
           = WooWooProject_getDocument p (documentPath (cell (heap s) a))"
    by (simp_all add: WooWooProject_getDocumentShared_def WooWooProject_getDocument_by_document_def
        WooWooProject_getDocument_def map_of_as_find)
qed

text \<open>In a state whose keys are the documents' paths, the old project and the shared
  handle are the ones the lookup by key found.\<close>

lemma tracked_shared_is_document:
  assumes wf: "keys_match_paths s" and tr: "getDocument s k = Some a"
    and j: "getProjectByDocument s a = Some j"
  shows "WooWooProject_getDocumentShared (cell (heap s)) (projects s ! j) a = Some a"
    and "first_index (\<lambda>p. WooWooProject_getDocument p k \<noteq> None) (projects s) = Some j"
proof -
  have pk: "documentPath (cell (heap s) a) = k"
    by (rule tracked_path [OF wf tr])
  have "getProjectByDocument s a
          = first_index (\<lambda>p. WooWooProject_getDocument p k \<noteq> None) (projects s)"
    unfolding getProjectByDocument_def
    by (rule first_index_cong) (simp add: by_path_is_by_key(2) [OF wf] pk)
  with j show fi: "first_index (\<lambda>p. WooWooProject_getDocument p k \<noteq> None) (projects s) = Some j"
    by simp
  from tr fi have "WooWooProject_getDocument (projects s ! j) k = Some a"
    by (simp add: getDocument_def first_document_first_index)
  moreover from first_index_Some [OF fi] have "projects s ! j \<in> set (projects s)"
    by simp
  ultimately show "WooWooProject_getDocumentShared (cell (heap s)) (projects s ! j) a = Some a"
    by (simp add: by_path_is_by_key(1) [OF wf] pk)
qed



lemma folder_deleteDocument [simp]:
  "projectFolderPath (WooWooProject_deleteDocument h p d) = projectFolderPath p"
  by (simp add: WooWooProject_deleteDocument_def split: option.splits)

lemma folder_addDocument [simp]:
  "projectFolderPath (WooWooProject_addDocument h p d) = projectFolderPath p"
  by (simp add: WooWooProject_addDocument_def)



text \<open>The pass of \<open>renameFiles\<close> that moves a document, written out.\<close>

lemma renameFile_move:
  assumes "endsWith (generic_string (u2p (fst r))) ''.woo''"
    and "endsWith (generic_string (u2p (snd r))) ''.woo''"
    and "getDocument s (u2p (fst r)) = Some a"
    and "getProjectByDocument s a = Some j"
    and "WooWooProject_getDocumentShared (cell (heap s)) (projects s ! j) a = Some sh"
    and "getProject_or_null s (findProjectFolder u2p fs s (snd r)) = Some np"
    and "h' = (cell (heap s))(a := (cell (heap s) a)\<lparr>documentPath := u2p (snd r)\<rparr>)"
    and "ps1 = (projects s)[j := WooWooProject_deleteDocument h' (projects s ! j) (Some a)]"
  shows "renameFile u2p fs s r =
           (s\<lparr>projects := ps1[np := WooWooProject_addDocument h' (ps1 ! np) sh],
              heap := (heap s)\<lparr>cell := h'\<rparr>\<rparr>,
            [(u2p (fst r), u2p (snd r))])"
  using assms by (simp add: renameFile_def Let_def)






lemma renameFiles_single: "renameFiles u2p fs s [r] = renameFile u2p fs s r"
  by (simp add: renameFiles_def Let_def)






lemma getDocument_addDocument:
  "WooWooProject_getDocument (WooWooProject_addDocument h p d) k
     = (if k = documentPath (h d) then Some d else WooWooProject_getDocument p k)"
  by (simp add: WooWooProject_getDocument_def WooWooProject_addDocument_def update_conv')

lemma getDocument_deleteDocument:
  "WooWooProject_getDocument (WooWooProject_deleteDocument h p (Some d)) k
     = (if k = documentPath (h d) then None else WooWooProject_getDocument p k)"
  by (simp add: WooWooProject_getDocument_def WooWooProject_deleteDocument_def delete_conv')


section \<open>Projects are created at load only (C5)\<close>








section \<open>Events on untracked paths (C8)\<close>

lemma load_percent:
  "loadWorkspace file_uri_to_path percent_fs WooWooAnalyzer ''file:///w'' = Inr percent_state"
  by (simp add: loadWorkspace_def uri_w percent_fs_def percent_state_def WooWooAnalyzer_def
      findProjectFolders_def recursive_directory_iterator_def filename_def parent_path_def
      WooWooProject_def extension_def WooWooProject_loadDocument_def make_shared_def
      DialectedWooWooDocument_def findAllWooFiles_def exists_path_def is_directory_def
      WooWooProject_default_def WooWooProject_getDocument_def loadDocument_at_def Let_def)









text \<open>
  The assumption on the old path is not idle for an arbitrary conversion. With
  \<open>file_uri_to_path\<close>, which decodes percent escapes whatever it is handed, the path
  \<^verbatim>\<open>/w/a%20b.woo\<close> is not in canonical form: converted again it becomes \<^verbatim>\<open>/w/a b.woo\<close>. A
  rename event naming the first, where nothing is tracked, then drops the document
  tracked at the second.
\<close>

lemma uri_pct: "file_uri_to_path ''file:///w/a%2520b.woo'' = [''w'', ''a%20b.woo'']"
  by code_simp
lemma uri_pct_txt: "file_uri_to_path ''file:///w/a%2520b.txt'' = [''w'', ''a%20b.txt'']"
  by code_simp
lemma uri_pct_again: "file_uri_to_path (generic_string [''w'', ''a%20b.woo'']) = [''w'', ''a b.woo'']"
  by code_simp

lemma pct_suffix:
  "endsWith (generic_string [''w'', ''a%20b.woo'']) ''.woo''"
  "\<not> endsWith (generic_string [''w'', ''a%20b.txt'']) ''.woo''"
  by (simp_all add: endsWith_def generic_string_def)

lemma second_conversion_of_unstable_path:
  "getDocument percent_state (file_uri_to_path ''file:///w/a%2520b.woo'') = None \<and>
   \<not> path_stable file_uri_to_path (file_uri_to_path ''file:///w/a%2520b.woo'') \<and>
   map documents (projects percent_state) = [[([''w'', ''a b.woo''], 0)]] \<and>
   map documents (projects (fst (renameFiles file_uri_to_path percent_fs percent_state
      [(''file:///w/a%2520b.woo'', ''file:///w/a%2520b.txt'')]))) = [[]]"
  by (simp add: uri_pct uri_pct_txt uri_pct_again pct_suffix renameFiles_def renameFile_def Let_def
      percent_state_def getDocument_def WooWooProject_getDocument_def path_stable_def
      deleteDocument_uri_def getDocumentByUri_def deleteDocument_def referenced_def
      WooWooProject_deleteDocument_def)

section \<open>Evaluating the operations\<close>

lemma uri_x: "file_uri_to_path ''file:///w/x.woo'' = [''w'', ''x.woo'']" by code_simp
lemma uri_y: "file_uri_to_path ''file:///w/y.woo'' = [''w'', ''y.woo'']" by code_simp
lemma uri_z: "file_uri_to_path ''file:///w/z.woo'' = [''w'', ''z.woo'']" by code_simp

lemma xyz_suffix:
  "endsWith (generic_string [''w'', ''x.woo'']) ''.woo''"
  "endsWith (generic_string [''w'', ''y.woo'']) ''.woo''"
  "endsWith (generic_string [''w'', ''z.woo'']) ''.woo''"
  "endsWith (generic_string [''w'', ''doc2.woo'']) ''.woo''"
  "endsWith (generic_string [''w'', ''doc3.woo'']) ''.woo''"
  by (simp_all add: endsWith_def generic_string_def)

section \<open>Renaming leaves the old key behind (C1)\<close>

text \<open>Any key other than the new path that is tracked before a pass stays tracked.\<close>

lemma first_document_nth:
  "i < length ps \<Longrightarrow> WooWooProject_getDocument (ps ! i) k \<noteq> None \<Longrightarrow> first_document ps k \<noteq> None"
  by (auto simp: first_document_None)

lemma renameFile_keeps_other_keys:
  assumes tracked: "getDocument s k \<noteq> None"
    and woo: "endsWith (generic_string (u2p (snd r))) ''.woo''"
    and other: "k \<noteq> u2p (snd r)"
  shows "getDocument (fst (renameFile u2p fs s r)) k \<noteq> None"
proof (cases "endsWith (generic_string (u2p (fst r))) ''.woo''")
  case False
  with tracked show ?thesis
    by (simp add: renameFile_def Let_def)
next
  case True
  note b1 = True
  show ?thesis
  proof (cases "getDocument s (u2p (fst r))")
    case None
    with b1 woo tracked show ?thesis by (simp add: renameFile_def Let_def)
  next
    case (Some a)
    note a = Some
    show ?thesis
    proof (cases "getProjectByDocument s a")
      case None
      with b1 woo a tracked show ?thesis by (simp add: renameFile_def Let_def)
    next
      case (Some j)
      note j = Some
      show ?thesis
      proof (cases "WooWooProject_getDocumentShared (cell (heap s)) (projects s ! j) a")
        case None
        with b1 woo a j tracked show ?thesis by (simp add: renameFile_def Let_def)
      next
        case (Some sh)
        note sh = Some
        show ?thesis
        proof (cases "getProject_or_null s (findProjectFolder u2p fs s (snd r))")
          case None
          with b1 woo a j sh tracked show ?thesis by (simp add: renameFile_def Let_def)
        next
          case (Some np)
          define h' where
            "h' = (cell (heap s))(a := (cell (heap s) a)\<lparr>documentPath := u2p (snd r)\<rparr>)"
          define ps1 where
            "ps1 = (projects s)[j := WooWooProject_deleteDocument h' (projects s ! j) (Some a)]"
          define ps2 where "ps2 = ps1[np := WooWooProject_addDocument h' (ps1 ! np) sh]"
          have eq: "fst (renameFile u2p fs s r) = s\<lparr>projects := ps2, heap := (heap s)\<lparr>cell := h'\<rparr>\<rparr>"
            by (simp add: renameFile_move [OF b1 woo a j sh Some h'_def ps1_def] ps2_def)
          from tracked obtain p where p: "p \<in> set (projects s)" "WooWooProject_getDocument p k \<noteq> None"
            by (auto simp: getDocument_def first_document_None)
          then obtain i where i: "i < length (projects s)" "projects s ! i = p"
            by (auto simp: in_set_conv_nth)
          have hk: "documentPath (h' a) \<noteq> k"
            using other by (simp add: h'_def)
          have k1: "WooWooProject_getDocument (ps1 ! i) k \<noteq> None"
            using i p(2) hk by (cases "i = j") (auto simp: ps1_def getDocument_deleteDocument)
          have il: "i < length ps1"
            using i by (simp add: ps1_def)
          have k2: "WooWooProject_getDocument (ps2 ! i) k \<noteq> None"
            using k1 il by (cases "i = np") (auto simp: ps2_def getDocument_addDocument)
          have "first_document ps2 k \<noteq> None"
            by (rule first_document_nth [OF _ k2]) (use il in \<open>simp add: ps2_def\<close>)
          then show ?thesis
            by (simp add: eq getDocument_def)
        qed
      qed
    qed
  qed
qed

lemma rename_old_key_remains:
  assumes "getDocument s (u2p oldUri) \<noteq> None"
    and "endsWith (generic_string (u2p newUri)) ''.woo''"
    and "u2p oldUri \<noteq> u2p newUri"
  shows "getDocument (fst (renameFiles u2p fs s [(oldUri, newUri)])) (u2p oldUri) \<noteq> None"
  using renameFile_keeps_other_keys [of s "u2p oldUri" u2p "(oldUri, newUri)" fs] assms
  by (simp add: renameFiles_single)

text \<open>
  C1 at a concrete input. In the state loaded from the spec's scenario \<^verbatim>\<open>/w/doc2.woo\<close> is
  tracked by the project without a folder. After renaming it to \<^verbatim>\<open>/w/doc3.woo\<close> the lookup
  at the old path still finds the document: \<open>renameFiles\<close> stores the new path in the
  document before it asks the old project to delete the document, and the deletion
  erases the key read from the document, which is then the new path. The same document
  sits under both keys of the same map.
\<close>

theorem rename_keeps_old_key:
  "getDocument example_state [''w'', ''doc2.woo''] = Some 1 \<and>
   getDocument
     (fst (renameFiles file_uri_to_path example_fs example_state
        [(''file:///w/doc2.woo'', ''file:///w/doc3.woo'')]))
     [''w'', ''doc2.woo''] = Some 1 \<and>
   getDocument
     (fst (renameFiles file_uri_to_path example_fs example_state
        [(''file:///w/doc2.woo'', ''file:///w/doc3.woo'')]))
     [''w'', ''doc3.woo''] = Some 1 \<and>
   documents (projects
     (fst (renameFiles file_uri_to_path example_fs example_state
        [(''file:///w/doc2.woo'', ''file:///w/doc3.woo'')])) ! 1)
     = [([''w'', ''doc2.woo''], 1), ([''w'', ''doc3.woo''], 1)]"
  by (simp add: example_state_def example_fs_def uri_doc2 uri_doc3 xyz_suffix event_defs)

section \<open>Loading nested project folders (C2)\<close>

text \<open>
  C2 at a concrete input. With a marker file in \<^verbatim>\<open>/w\<close> and another in \<^verbatim>\<open>/w/sub\<close>, the load
  puts \<^verbatim>\<open>/w/sub/a.woo\<close> into the map of the project of \<^verbatim>\<open>/w\<close> and into the map of the project
  of \<^verbatim>\<open>/w/sub\<close>, as two distinct documents: each project scans its whole folder. The
  boundary search names \<^verbatim>\<open>/w/sub\<close> alone.
\<close>

theorem nested_markers_claim_twice:
  "loadWorkspace file_uri_to_path nested_fs WooWooAnalyzer ''file:///w'' = Inr nested_state \<and>
   map (\<lambda>project. (projectFolderPath project,
                    WooWooProject_getDocument project [''w'', ''sub'', ''a.woo'']))
     (projects nested_state)
     = [(Some [''w''], Some 0), (Some [''w'', ''sub''], Some 1), (None, None)] \<and>
   findProjectFolder file_uri_to_path nested_fs nested_state ''file:///w/sub/a.woo''
     = Some [''w'', ''sub'']"
proof -
  have u: "file_uri_to_path ''file:///w/sub/a.woo'' = [''w'', ''sub'', ''a.woo'']"
    by code_simp
  have "map (\<lambda>project. (projectFolderPath project,
                    WooWooProject_getDocument project [''w'', ''sub'', ''a.woo'']))
     (projects nested_state)
     = [(Some [''w''], Some 0), (Some [''w'', ''sub''], Some 1), (None, None)]"
    by (simp add: nested_state_def WooWooProject_getDocument_def)
  moreover have "findProjectFolder file_uri_to_path nested_fs nested_state ''file:///w/sub/a.woo''
     = Some [''w'', ''sub'']"
    by (simp add: nested_state_def nested_fs_def u event_defs)
  ultimately show ?thesis
    using load_nested by simp
qed

section \<open>Loading a root that is no directory (C7)\<close>

lemma uri_missing: "file_uri_to_path ''file:///missing'' = [''missing'']" by code_simp

lemma loadWorkspace_not_directory:
  "\<not> is_directory fs (u2p workspaceUri) \<Longrightarrow>
     loadWorkspace u2p fs s workspaceUri = Inl filesystem_error"
  by (auto simp: loadWorkspace_def findProjectFolders_def recursive_directory_iterator_def
      is_directory_def split: option.splits fsnode.splits)

text \<open>
  C7 at two concrete inputs: a root that does not exist and a root that is a regular
  file. \<open>findAllWooFiles\<close> checks the root and returns the empty set; \<open>findProjectFolders\<close>,
  which \<open>loadWorkspace\<close> calls first, opens the directory iterator unguarded, and the
  iterator's exception ends \<open>loadWorkspace\<close>.
\<close>

theorem missing_root_aborts_load:
  "\<not> exists_path example_fs [''missing''] \<and>
   findAllWooFiles example_fs [''missing''] = Inr [] \<and>
   findProjectFolders example_fs [''missing''] = Inl filesystem_error \<and>
   loadWorkspace file_uri_to_path example_fs WooWooAnalyzer ''file:///missing''
     = Inl filesystem_error \<and>
   \<not> is_directory example_fs [''w'', ''doc2.woo''] \<and>
   findAllWooFiles example_fs [''w'', ''doc2.woo''] = Inr [] \<and>
   loadWorkspace file_uri_to_path example_fs WooWooAnalyzer ''file:///w/doc2.woo''
     = Inl filesystem_error"
  by (simp add: loadWorkspace_def findAllWooFiles_def findProjectFolders_def
      recursive_directory_iterator_def exists_path_def is_directory_def example_fs_def
      uri_missing uri_doc2)

section \<open>Identity across a rename (C3)\<close>

lemma after_rename_eq:
  "after_rename =
     \<lparr>workspaceRootPath = [''w''],
      projects = [\<lparr>projectFolderPath = None, woofile = None,
                  documents = [([''w'', ''x.woo''], 0), ([''w'', ''y.woo''], 0)]\<rparr>],
      heap = \<lparr>cell = (\<lambda>a. \<lparr>documentPath = [], source = []\<rparr>)
                 (0 := \<lparr>documentPath = [''w'', ''y.woo''], source = ''text''\<rparr>),
              next_free = 1\<rparr>,
      undefined_behaviour = False\<rparr>"
  by (simp add: after_rename_def single_state_def single_fs_renamed_def uri_x uri_y xyz_suffix event_defs)

lemma after_delete_eq:
  "after_delete =
     \<lparr>workspaceRootPath = [''w''],
      projects = [\<lparr>projectFolderPath = None, woofile = None,
                  documents = [([''w'', ''x.woo''], 0)]\<rparr>],
      heap = \<lparr>cell = (\<lambda>a. \<lparr>documentPath = [], source = []\<rparr>)
                 (0 := \<lparr>documentPath = [''w'', ''y.woo''], source = ''text''\<rparr>),
              next_free = 1\<rparr>,
      undefined_behaviour = False\<rparr>"
  by (simp add: after_delete_def after_rename_eq uri_y event_defs)

lemma after_open_eq:
  "after_open =
     \<lparr>workspaceRootPath = [''w''],
      projects = [\<lparr>projectFolderPath = None, woofile = None,
                  documents = [([''w'', ''x.woo''], 0), ([''w'', ''y.woo''], 1)]\<rparr>],
      heap = \<lparr>cell = (\<lambda>a. \<lparr>documentPath = [], source = []\<rparr>)
                 (0 := \<lparr>documentPath = [''w'', ''y.woo''], source = ''text''\<rparr>,
                  1 := \<lparr>documentPath = [''w'', ''y.woo''], source = ''text''\<rparr>),
              next_free = 2\<rparr>,
      undefined_behaviour = False\<rparr>"
  by (simp add: after_open_def after_delete_eq single_fs_renamed_def uri_y event_defs)

lemma after_second_rename_eq:
  "after_second_rename =
     \<lparr>workspaceRootPath = [''w''],
      projects = [\<lparr>projectFolderPath = None, woofile = None,
                  documents = [([''w'', ''x.woo''], 0), ([''w'', ''y.woo''], 0)]\<rparr>],
      heap = \<lparr>cell = (\<lambda>a. \<lparr>documentPath = [], source = []\<rparr>)
                 (0 := \<lparr>documentPath = [''w'', ''y.woo''], source = ''text''\<rparr>,
                  1 := \<lparr>documentPath = [''w'', ''z.woo''], source = ''text''\<rparr>),
              next_free = 2\<rparr>,
      undefined_behaviour = False\<rparr>"
  by (simp add: after_second_rename_def after_open_eq single_fs_renamed_def uri_y uri_z xyz_suffix event_defs)

lemma stale_key_scenario:
  "loadWorkspace file_uri_to_path single_fs WooWooAnalyzer ''file:///w'' = Inr single_state \<and>
   getDocument after_open [''w'', ''y.woo''] = Some 1 \<and>
   getDocument after_second_rename [''w'', ''z.woo''] = None \<and>
   getDocument after_second_rename [''w'', ''y.woo''] = Some 0"
  by (simp add: load_single after_open_eq after_second_rename_eq getDocument_def
      WooWooProject_getDocument_def)

lemma load_two_projects:
  "loadWorkspace file_uri_to_path two_projects_fs WooWooAnalyzer ''file:///w'' = Inr two_projects_state"
  by (simp add: load_defs uri_w two_projects_fs_def two_projects_state_def)

lemma uri_pa: "file_uri_to_path ''file:///w/p/a.woo'' = [''w'', ''p'', ''a.woo'']" by code_simp
lemma uri_qb: "file_uri_to_path ''file:///w/q/b.woo'' = [''w'', ''q'', ''b.woo'']" by code_simp

lemma pq_suffix:
  "endsWith (generic_string [''w'', ''p'', ''a.woo'']) ''.woo''"
  "endsWith (generic_string [''w'', ''q'', ''b.woo'']) ''.woo''"
  by (simp_all add: endsWith_def generic_string_def)

lemma stale_membership:
  "getDocument two_projects_state [''w'', ''p'', ''a.woo''] = Some 0 \<and>
   keys_match_paths two_projects_state \<and>
   getDocument
     (fst (renameFiles file_uri_to_path marker_removed_fs two_projects_state
        [(''file:///w/p/a.woo'', ''file:///w/q/b.woo'')]))
     [''w'', ''q'', ''b.woo''] = Some 1"
  by (simp add: two_projects_state_def marker_removed_fs_def uri_pa uri_qb pq_suffix event_defs
      keys_match_paths_def)

text \<open>
  C3 as stated fails in two ways. First, when another project still tracks the new
  path: the state is loaded while \<^verbatim>\<open>/w/q\<close> has its marker file; the marker is then
  removed (no event reports it) and \<^verbatim>\<open>/w/p/a.woo\<close> is renamed to \<^verbatim>\<open>/w/q/b.woo\<close>. The
  destination is now the project without a folder, the project of \<^verbatim>\<open>/w/q\<close> keeps its own
  document under the new path, and the lookup there returns that document, not the
  renamed one. Second, in a state the operations reach on an unchanged tree: after the
  first rename the key \<^verbatim>\<open>/w/x.woo\<close> is left behind, pointing to the document whose path
  is now \<^verbatim>\<open>/w/y.woo\<close>. Once \<^verbatim>\<open>/w/y.woo\<close> has been deleted and a new document opened there,
  the scan by path that looks for the shared handle of the new document meets the
  stale entry first: the rename to \<^verbatim>\<open>/w/z.woo\<close> re-inserts the old document under
  \<^verbatim>\<open>/w/y.woo\<close>, and the lookup at \<^verbatim>\<open>/w/z.woo\<close> finds nothing. (Here the map is iterated
  with the entry of \<^verbatim>\<open>/w/x.woo\<close> before that of \<^verbatim>\<open>/w/y.woo\<close>, the order of the keys and of
  their insertion; iterated the other way round, it is the rename of the stale key
  \<^verbatim>\<open>/w/x.woo\<close> that moves the wrong document.)
\<close>

theorem rename_identity_counterexample:
  "loadWorkspace file_uri_to_path two_projects_fs WooWooAnalyzer ''file:///w''
     = Inr two_projects_state \<and>
   getDocument two_projects_state [''w'', ''p'', ''a.woo''] = Some 0 \<and>
   getDocument
     (fst (renameFiles file_uri_to_path marker_removed_fs two_projects_state
        [(''file:///w/p/a.woo'', ''file:///w/q/b.woo'')]))
     [''w'', ''q'', ''b.woo''] = Some 1 \<and>
   loadWorkspace file_uri_to_path single_fs WooWooAnalyzer ''file:///w'' = Inr single_state \<and>
   getDocument after_open [''w'', ''y.woo''] = Some 1 \<and>
   getDocument after_second_rename [''w'', ''z.woo''] = None \<and>
   getDocument after_second_rename [''w'', ''y.woo''] = Some 0"
  using load_two_projects stale_membership stale_key_scenario by simp

lemma first_index_SomeI:
  "i < length xs \<Longrightarrow> P (xs ! i) \<Longrightarrow> (\<forall>j<i. \<not> P (xs ! j)) \<Longrightarrow> first_index P xs = Some i"
proof (induction xs arbitrary: i)
  case Nil
  then show ?case by simp
next
  case (Cons x xs)
  show ?case
  proof (cases i)
    case 0
    with Cons.prems show ?thesis by simp
  next
    case (Suc k)
    with Cons.prems have "\<not> P x"
      by auto
    moreover from Suc Cons.prems have "k < length xs" "P (xs ! k)" "\<forall>j<k. \<not> P (xs ! j)"
      by auto
    then have "first_index P xs = Some k"
      by (rule Cons.IH)
    ultimately show ?thesis
      using Suc by simp
  qed
qed

lemma getProject_or_null_bound:
  "getProject_or_null s folder = Some i \<Longrightarrow> i < length (projects s)"
  using first_index_Some [of "\<lambda>project. projectFolderPath project = folder" "projects s" i]
    first_index_Some [of "\<lambda>project. projectFolderPath project = None" "projects s" i]
  by (auto simp: getProject_or_null_def getProject_def split: option.splits)

lemma getProjectByDocument_bound:
  "getProjectByDocument s a = Some j \<Longrightarrow> j < length (projects s)"
  using first_index_Some
    [of "\<lambda>project. WooWooProject_getDocument_by_document (cell (heap s)) project a \<noteq> None"
        "projects s" j]
  by (simp add: getProjectByDocument_def)

lemma rename_identity_core:
  assumes wf: "keys_match_paths s"
    and b1: "endsWith (generic_string (u2p oldUri)) ''.woo''"
    and b2: "endsWith (generic_string (u2p newUri)) ''.woo''"
    and tr: "getDocument s (u2p oldUri) = Some d"
    and np: "getProject_or_null s (findProjectFolder u2p fs s newUri) = Some dest"
    and ns: "\<forall>i<length (projects s).
               WooWooProject_getDocument (projects s ! i) (u2p newUri) \<noteq> None \<longrightarrow> i = dest"
  shows "getDocument (fst (renameFiles u2p fs s [(oldUri, newUri)])) (u2p newUri) = Some d"
    and "cell (heap (fst (renameFiles u2p fs s [(oldUri, newUri)]))) d
           = (cell (heap s) d)\<lparr>documentPath := u2p newUri\<rparr>"
proof -
  from tracked_has_project [OF tr] obtain j where j: "getProjectByDocument s d = Some j"
    by auto
  have sh: "WooWooProject_getDocumentShared (cell (heap s)) (projects s ! j) d = Some d"
    by (rule tracked_shared_is_document(1) [OF wf tr j])
  define h' where
    "h' = (cell (heap s))(d := (cell (heap s) d)\<lparr>documentPath := u2p newUri\<rparr>)"
  define ps1 where
    "ps1 = (projects s)[j := WooWooProject_deleteDocument h' (projects s ! j) (Some d)]"
  define ps2 where "ps2 = ps1[dest := WooWooProject_addDocument h' (ps1 ! dest) d]"
  define s' where "s' = fst (renameFiles u2p fs s [(oldUri, newUri)])"
  have "renameFile u2p fs s (oldUri, newUri) =
           (s\<lparr>projects := ps1[dest := WooWooProject_addDocument h' (ps1 ! dest) d],
              heap := (heap s)\<lparr>cell := h'\<rparr>\<rparr>,
            [(u2p (fst (oldUri, newUri)), u2p (snd (oldUri, newUri)))])"
    by (rule renameFile_move [where a = d and j = j])
       (simp_all add: b1 b2 tr j sh np h'_def ps1_def)
  then have s'_eq: "s' = s\<lparr>projects := ps2, heap := (heap s)\<lparr>cell := h'\<rparr>\<rparr>"
    by (simp add: s'_def renameFiles_single ps2_def)
  have jl: "j < length (projects s)"
    by (rule getProjectByDocument_bound [OF j])
  have dl: "dest < length (projects s)"
    by (rule getProject_or_null_bound [OF np])
  have hd: "documentPath (h' d) = u2p newUri"
    by (simp add: h'_def)
  have at_dest: "WooWooProject_getDocument (ps2 ! dest) (u2p newUri) = Some d"
    using dl by (simp add: ps2_def ps1_def getDocument_addDocument hd)
  have before: "\<forall>i<dest. \<not> WooWooProject_getDocument (ps2 ! i) (u2p newUri) \<noteq> None"
  proof (intro allI impI)
    fix i assume i: "i < dest"
    then have il: "i < length (projects s)" and ne: "i \<noteq> dest"
      using dl by simp_all
    have "ps2 ! i = ps1 ! i"
      using ne by (simp add: ps2_def)
    moreover have "WooWooProject_getDocument (ps1 ! i) (u2p newUri) = None"
    proof (cases "i = j")
      case True
      then show ?thesis
        using jl by (simp add: ps1_def getDocument_deleteDocument hd)
    next
      case False
      then have "ps1 ! i = projects s ! i"
        by (simp add: ps1_def)
      with ns il ne show ?thesis
        by auto
    qed
    ultimately show "\<not> WooWooProject_getDocument (ps2 ! i) (u2p newUri) \<noteq> None"
      by simp
  qed
  have "first_index (\<lambda>p. WooWooProject_getDocument p (u2p newUri) \<noteq> None) ps2 = Some dest"
    by (rule first_index_SomeI) (use dl at_dest before in \<open>simp_all add: ps2_def ps1_def\<close>)
  then have "getDocument s' (u2p newUri) = Some d"
    using at_dest by (simp add: s'_eq getDocument_def first_document_first_index)
  then show "getDocument (fst (renameFiles u2p fs s [(oldUri, newUri)])) (u2p newUri) = Some d"
    by (simp add: s'_def)
  show "cell (heap (fst (renameFiles u2p fs s [(oldUri, newUri)]))) d
           = (cell (heap s) d)\<lparr>documentPath := u2p newUri\<rparr>"
    using s'_eq by (simp add: s'_def h'_def)
qed

lemma documentDidChange_tracked:
  "getDocument s (u2p uri) = Some d \<Longrightarrow>
     documentDidChange u2p s uri src =
       s\<lparr>heap := (heap s)\<lparr>cell := (cell (heap s))(d := updateSource src (cell (heap s) d))\<rparr>\<rparr>"
  by (simp add: documentDidChange_def handleDocumentChange_def)

text \<open>
  C3, as the code has it. Let every key of the state be the path of its document, let
  both paths of the pair be source paths, let \<open>d\<close> be the document tracked at the old
  path, let the destination project exist (the project of the folder the boundary
  search returns, else the project without a folder), and let no project but the
  destination track the new path. Then after \<open>renameFiles\<close> the lookup at the new path
  returns \<open>d\<close> itself; and a text written through the old path before the rename is the
  text of the document found at the new path after it.
\<close>

theorem rename_preserves_identity:
  assumes "keys_match_paths s"
    and "endsWith (generic_string (u2p oldUri)) ''.woo''"
    and "endsWith (generic_string (u2p newUri)) ''.woo''"
    and "getDocument s (u2p oldUri) = Some d"
    and "getProject_or_null s (findProjectFolder u2p fs s newUri) = Some dest"
    and "\<forall>i<length (projects s).
           WooWooProject_getDocument (projects s ! i) (u2p newUri) \<noteq> None \<longrightarrow> i = dest"
  shows "getDocument (fst (renameFiles u2p fs s [(oldUri, newUri)])) (u2p newUri) = Some d \<and>
         getDocument
           (fst (renameFiles u2p fs (documentDidChange u2p s oldUri src) [(oldUri, newUri)]))
           (u2p newUri) = Some d \<and>
         source (cell (heap
           (fst (renameFiles u2p fs (documentDidChange u2p s oldUri src) [(oldUri, newUri)]))) d)
           = src"
proof -
  define s1 where "s1 = documentDidChange u2p s oldUri src"
  have s1_eq: "s1 = s\<lparr>heap := (heap s)\<lparr>cell :=
                   (cell (heap s))(d := updateSource src (cell (heap s) d))\<rparr>\<rparr>"
    unfolding s1_def
    by (rule documentDidChange_tracked [where u2p = u2p and uri = oldUri, OF assms(4)])
  have wf1: "keys_match_paths s1"
    using assms(1) by (auto simp: s1_eq keys_match_paths_def updateSource_def list_all_iff)
  have tr1: "getDocument s1 (u2p oldUri) = Some d"
    using assms(4) by (simp add: s1_eq getDocument_def)
  have gp: "getProject s1 folder = getProject s folder" for folder
    by (simp add: s1_eq getProject_def)
  have fp: "findProjectFolder u2p fs s1 newUri = findProjectFolder u2p fs s newUri"
    by (simp add: s1_eq findProjectFolder_def)
  have np1: "getProject_or_null s1 (findProjectFolder u2p fs s1 newUri) = Some dest"
    using assms(5) by (simp add: getProject_or_null_def gp fp cong: option.case_cong)
  have ns1: "\<forall>i<length (projects s1).
           WooWooProject_getDocument (projects s1 ! i) (u2p newUri) \<noteq> None \<longrightarrow> i = dest"
    using assms(6) by (simp add: s1_eq)
  note plain = rename_identity_core(1)
    [where u2p = u2p and oldUri = oldUri and newUri = newUri and fs = fs, OF assms]
  note mut = rename_identity_core
    [where u2p = u2p and oldUri = oldUri and newUri = newUri and fs = fs,
     OF wf1 assms(2) assms(3) tr1 np1 ns1]
  have "source (cell (heap (fst (renameFiles u2p fs s1 [(oldUri, newUri)]))) d) = src"
    unfolding mut(2) by (simp add: s1_eq updateSource_def)
  with plain mut(1) show ?thesis
    by (simp add: s1_def)
qed

theorem rename_preserves_identity_witness:
  "getDocument example_state (file_uri_to_path ''file:///w/doc2.woo'') = Some 1 \<and>
   getDocument
     (fst (renameFiles file_uri_to_path example_fs
        (documentDidChange file_uri_to_path example_state ''file:///w/doc2.woo'' ''edited'')
        [(''file:///w/doc2.woo'', ''file:///w/doc3.woo'')]))
     (file_uri_to_path ''file:///w/doc3.woo'') = Some 1 \<and>
   source (cell (heap
     (fst (renameFiles file_uri_to_path example_fs
        (documentDidChange file_uri_to_path example_state ''file:///w/doc2.woo'' ''edited'')
        [(''file:///w/doc2.woo'', ''file:///w/doc3.woo'')]))) 1) = ''edited''"
proof -
  have wf: "keys_match_paths example_state"
    by (simp add: keys_match_paths_def example_state_def)
  have b1: "endsWith (generic_string (file_uri_to_path ''file:///w/doc2.woo'')) ''.woo''"
    by (simp add: uri_doc2 endsWith_def generic_string_def)
  have b2: "endsWith (generic_string (file_uri_to_path ''file:///w/doc3.woo'')) ''.woo''"
    by (simp add: uri_doc3 endsWith_def generic_string_def)
  have tr: "getDocument example_state (file_uri_to_path ''file:///w/doc2.woo'') = Some 1"
    by (simp add: uri_doc2 getDocument_def example_state_def WooWooProject_getDocument_def)
  have np: "getProject_or_null example_state
              (findProjectFolder file_uri_to_path example_fs example_state ''file:///w/doc3.woo'')
              = Some 1"
    by (simp add: getProject_or_null_def getProject_def findProjectFolder_def uri_doc3
        example_state_def example_fs_def parent_path_def path_slash_def exists_path_def
        findProjectFolder_loop.simps)
  have ns: "\<forall>i<length (projects example_state).
           WooWooProject_getDocument (projects example_state ! i)
             (file_uri_to_path ''file:///w/doc3.woo'') \<noteq> None \<longrightarrow> i = 1"
    by (simp add: uri_doc3 example_state_def WooWooProject_getDocument_def less_Suc_eq
        numeral_2_eq_2)
  from rename_preserves_identity
    [where u2p = file_uri_to_path and oldUri = "''file:///w/doc2.woo''"
       and newUri = "''file:///w/doc3.woo''" and fs = example_fs and src = "''edited''",
     OF wf b1 b2 tr np ns] tr
  show ?thesis by simp
qed

section \<open>The fallback at a stale key (C5)\<close>


section \<open>Malformed marker content (C6)\<close>








end
